theory Spec2Isabelle
  imports Main
begin

section \<open>Python values, exceptions and strings\<close>

text \<open>
  Exceptions of the Python run time that the modelled functions can raise. A function that
  can raise returns \<open>error + 'a\<close>, with \<open>Inl\<close> for the exception.
\<close>

datatype error =
    KeyError string
  | IndexError
  | TypeError
  | AttributeError
  | NameError string
  | JSONDecodeError
  | ConnectionError
  | OSError
  | OtherError string

text \<open>
  The values that \<open>json.loads\<close>, \<open>json.load\<close> and \<open>yaml.load\<close> with the safe loader
  hand back: null, booleans, integers, strings, lists, and dictionaries with string keys in
  insertion order. Floating point numbers are left out.
\<close>

datatype pyval =
    PNone
  | PBool bool
  | PInt int
  | PStr string
  | PList "pyval list"
  | PDict "(string \<times> pyval) list"

text \<open>
  Text is a list of characters, one \<open>char\<close> per code point below 256. \<open>isspace\<close> is
  the set of characters that Python's \<open>str.strip()\<close> removes in that range.
\<close>

definition isspace :: "char \<Rightarrow> bool" where
  "isspace c = (of_char c \<in> {9, 10, 11, 12, 13, 28, 29, 30, 31, 32, 133, 160 :: nat})"

definition str_strip :: "string \<Rightarrow> string" where
  "str_strip s = rev (dropWhile isspace (rev (dropWhile isspace s)))"

text \<open>
  \<open>s.split(sep)\<close> for a separator \<open>c # cs\<close> (Python refuses the empty separator, and the
  source only uses the literals \<open>"\n"\<close>, \<open>","\<close>, \<open>"/"\<close> and \<open>"### "\<close>). The third
  argument holds the characters of the current piece, last one first.
\<close>

fun split_from :: "char \<Rightarrow> string \<Rightarrow> string \<Rightarrow> string \<Rightarrow> string list" where
  "split_from c cs cur [] = [rev cur]"
| "split_from c cs cur (x # xs) =
     (if x = c \<and> take (length cs) xs = cs
      then rev cur # split_from c cs [] (drop (length cs) xs)
      else split_from c cs (x # cur) xs)"

definition str_split :: "string \<Rightarrow> string \<Rightarrow> string list" where
  "str_split sep s = (case sep of [] \<Rightarrow> [s] | c # cs \<Rightarrow> split_from c cs [] s)"

fun str_join :: "string \<Rightarrow> string list \<Rightarrow> string" where
  "str_join sep [] = []"
| "str_join sep [x] = x"
| "str_join sep (x # y # ys) = x @ sep @ str_join sep (y # ys)"

section \<open>Registry records and the record store\<close>

text \<open>
  Modelled from the spec: the classes \<open>TestResult\<close> and \<open>Repository\<close> of
  \<open>ecosystem.models\<close> are not among the sources; the fields are those of the spec's data
  model. \<open>stars\<close> is \<open>PNone\<close> until it is refreshed.
\<close>

record test_result =
  test_type :: string
  passed :: bool

record repository =
  name :: string
  url :: string
  description :: "string option"
  licence :: "string option"
  contact_info :: "string option"
  alternatives :: "string option"
  affiliations :: "string option"
  labels :: "string list"
  website :: "string option"
  tier :: string
  stars :: pyval
  skip_tests :: bool
  tests_results :: "test_result list"

text \<open>
  Modelled from the spec: the record store (\<open>ecosystem.daos.DAO\<close>) is not among the
  sources. It is an ordered-by-insertion mapping from URL to record: \<open>storage.read()\<close>
  gives the mapping, \<open>get_repos_by_tier\<close> selects the records of one tier in store order,
  \<open>update\<close> changes a field of the record of a URL and fails if the URL is unknown,
  \<open>write\<close> stores a record under its URL, overwriting, and \<open>add_repo_test_result\<close> appends
  a test result to the record of a URL (for an unknown URL, on which the spec is silent,
  it fails like \<open>update\<close>).
\<close>

type_synonym store = "(string \<times> repository) list"

definition storage_read_values :: "store \<Rightarrow> repository list" where
  "storage_read_values st = map snd st"

definition get_repos_by_tier :: "store \<Rightarrow> string \<Rightarrow> repository list" where
  "get_repos_by_tier st t = filter (\<lambda>r. tier r = t) (map snd st)"

fun map_record :: "(repository \<Rightarrow> repository) \<Rightarrow> string \<Rightarrow> store \<Rightarrow> store" where
  "map_record f u [] = []"
| "map_record f u ((k, r) # st) = (if k = u then (k, f r) # st else (k, r) # map_record f u st)"

definition dao_update_stars :: "store \<Rightarrow> string \<Rightarrow> pyval \<Rightarrow> error + store" where
  "dao_update_stars st u v =
     (if u \<in> fst ` set st then Inr (map_record (\<lambda>r. r\<lparr>stars := v\<rparr>) u st)
      else Inl (KeyError u))"

definition dao_add_repo_test_result :: "store \<Rightarrow> string \<Rightarrow> test_result \<Rightarrow> error + store" where
  "dao_add_repo_test_result st u t =
     (if u \<in> fst ` set st
      then Inr (map_record (\<lambda>r. r\<lparr>tests_results := tests_results r @ [t]\<rparr>) u st)
      else Inl (KeyError u))"

fun dao_write :: "store \<Rightarrow> repository \<Rightarrow> store" where
  "dao_write [] r = [(url r, r)]"
| "dao_write ((k, r') # st) r = (if k = url r then (k, r) # st else (k, r') # dao_write st r)"

section \<open>Manager.list_repos_for_testing\<close>

text \<open>
  \<open>"/".join(repo.url.split("/")[3:5])\<close>: a slice never raises, it is shorter when the URL
  has fewer pieces.
\<close>

definition repo_test_name :: "string \<Rightarrow> string" where
  "repo_test_name u = str_join ''/'' (take 2 (drop 3 (str_split ''/'' u)))"

text \<open>The loop of \<open>list_repos_for_testing\<close>, with \<open>repo_names\<close> as its accumulator.\<close>

fun repo_names_loop :: "string list \<Rightarrow> repository list \<Rightarrow> string list" where
  "repo_names_loop repo_names [] = repo_names"
| "repo_names_loop repo_names (repo # rest) =
     (if \<not> skip_tests repo
      then repo_names_loop (repo_names @ [repo_test_name (url repo)]) rest
      else repo_names_loop repo_names rest)"

text \<open>
  The function hands back \<open>json.dumps(repo_names)\<close>; the serialiser of the standard
  library is a parameter.
\<close>

definition list_repos_for_testing :: "(string list \<Rightarrow> 'a) \<Rightarrow> store \<Rightarrow> 'a" where
  "list_repos_for_testing json_dumps st =
     json_dumps (repo_names_loop [] (storage_read_values st))"

section \<open>Manager.update_badges: the badge colour\<close>

text \<open>The loop over \<open>project.tests_results\<close>, with \<open>tests_passed\<close> as its state.\<close>

fun tests_passed_loop :: "bool \<Rightarrow> test_result list \<Rightarrow> bool" where
  "tests_passed_loop tests_passed [] = tests_passed"
| "tests_passed_loop tests_passed (type_test # rest) =
     (if test_type type_test = ''standard'' \<and> \<not> passed type_test
      then tests_passed_loop False rest
      else tests_passed_loop tests_passed rest)"

definition badge_color :: "repository \<Rightarrow> string" where
  "badge_color project =
     (if tests_passed_loop True (tests_results project) then ''blueviolet'' else ''gray'')"

text \<open>
  The world that the maintenance commands change: the record store, the files written
  under the badges folder, and the log. A log entry keeps the level, the format string and
  its arguments as they are passed to the logger (formatting is the logging library's
  work, and an error in it does not reach the caller).
\<close>

datatype level = INFO | WARNING

record world =
  db :: store
  files :: "string \<rightharpoonup> string"
  logged :: "(level \<times> string \<times> pyval list) list"

text \<open>What the code reads of the response of \<open>requests.get\<close>.\<close>

record response =
  ok :: bool
  content :: string
  resp_text :: string

text \<open>
  The collaborators of the manager that are outside the sources: \<open>Tier.all()\<close>,
  \<open>requests.get\<close> (which returns a response or raises), \<open>json.loads\<close>, opening a file
  for writing (\<open>can_open\<close> says whether it succeeds), \<open>Path(path).rglob('*.json')\<close>,
  opening an artifact and \<open>json.load\<close> on it, \<open>str()\<close> on a value that is not a string,
  and \<open>TestResult.from_dict\<close>.
\<close>

record externals =
  tier_all :: "string list"
  requests_get :: "string \<Rightarrow> error + response"
  json_loads :: "string \<Rightarrow> error + pyval"
  can_open :: "string \<Rightarrow> bool"
  rglob_json :: "string \<Rightarrow> string list"
  json_load_file :: "string \<Rightarrow> error + pyval"
  py_str :: "pyval \<Rightarrow> string"
  from_dict :: "pyval \<Rightarrow> error + test_result"

text \<open>
  A command returns the exception that ended it, if any, and the world as it is then:
  what was written before an exception stays written.
\<close>

type_synonym outcome = "error option \<times> world"

definition badge_url :: "string \<Rightarrow> string \<Rightarrow> string \<Rightarrow> string" where
  "badge_url label message color =
     ''https://img.shields.io/static/v1?'' @
     ''label='' @ label @ ''&message='' @ message @ ''&color='' @ color"

text \<open>The body of the inner loop of \<open>update_badges\<close>, for one project of one tier.\<close>

definition update_badges_project ::
  "externals \<Rightarrow> string \<Rightarrow> string \<Rightarrow> repository \<Rightarrow> world \<Rightarrow> outcome" where
  "update_badges_project ext badges_folder_path t project w =
     (case requests_get ext (badge_url (name project) t (badge_color project)) of
        Inl e \<Rightarrow> (Some e, w)
      | Inr shields_request \<Rightarrow>
          (let path = badges_folder_path @ ''/'' @ name project @ ''.svg'' in
           if \<not> can_open ext path then (Some OSError, w)
           else (None, w\<lparr>files := (files w)(path \<mapsto> content shields_request),
                         logged := logged w @
                           [(INFO, ''Badge for %s has been updated.'', [PStr (name project)])]\<rparr>)))"

fun update_badges_projects ::
  "externals \<Rightarrow> string \<Rightarrow> string \<Rightarrow> repository list \<Rightarrow> world \<Rightarrow> outcome" where
  "update_badges_projects ext bfp t [] w = (None, w)"
| "update_badges_projects ext bfp t (project # rest) w =
     (case update_badges_project ext bfp t project w of
        (Some e, w') \<Rightarrow> (Some e, w')
      | (None, w') \<Rightarrow> update_badges_projects ext bfp t rest w')"

fun update_badges_tiers :: "externals \<Rightarrow> string \<Rightarrow> string list \<Rightarrow> world \<Rightarrow> outcome" where
  "update_badges_tiers ext bfp [] w = (None, w)"
| "update_badges_tiers ext bfp (t # ts) w =
     (case update_badges_projects ext bfp t (get_repos_by_tier (db w) t) w of
        (Some e, w') \<Rightarrow> (Some e, w')
      | (None, w') \<Rightarrow> update_badges_tiers ext bfp ts w')"

definition update_badges :: "externals \<Rightarrow> string \<Rightarrow> world \<Rightarrow> outcome" where
  "update_badges ext current_dir w =
     update_badges_tiers ext (current_dir @ ''/badges'') (tier_all ext) w"

section \<open>Manager.update_stars\<close>

text \<open>
  The address queried for a project: \<open>project.url[-1]\<close> raises on the empty string and
  \<open>url_chunks[-2]\<close> raises when the URL has no \<open>/\<close>.
\<close>

definition stars_api_url :: "string \<Rightarrow> error + string" where
  "stars_api_url project_url =
     (if project_url = [] then Inl IndexError
      else
        (let u = (if last project_url = CHR ''/'' then butlast project_url else project_url);
             url_chunks = str_split ''/'' u
         in if length url_chunks < 2 then Inl IndexError
            else
              (let repo = last url_chunks;
                   user = url_chunks ! (length url_chunks - 2)
               in Inr (''http://api.github.com/repos/'' @ user @ ''/'' @ repo))))"

text \<open>\<open>json_data.get(key)\<close>: only a dictionary has the method.\<close>

definition py_get :: "pyval \<Rightarrow> string \<Rightarrow> error + pyval" where
  "py_get v k =
     (case v of
        PDict d \<Rightarrow> Inr (case map_of d k of None \<Rightarrow> PNone | Some x \<Rightarrow> x)
      | _ \<Rightarrow> Inl AttributeError)"

definition update_stars_project :: "externals \<Rightarrow> repository \<Rightarrow> world \<Rightarrow> outcome" where
  "update_stars_project ext project w =
     (case stars_api_url (url project) of
        Inl e \<Rightarrow> (Some e, w)
      | Inr u \<Rightarrow>
          (case requests_get ext u of
             Inl e \<Rightarrow> (Some e, w)
           | Inr resp \<Rightarrow>
               if \<not> ok resp
               then (None, w\<lparr>logged := logged w @
                       [(WARNING, ''Bad response for project %s'', [PStr (url project)])]\<rparr>)
               else
                 (case json_loads ext (resp_text resp) of
                    Inl e \<Rightarrow> (Some e, w)
                  | Inr json_data \<Rightarrow>
                      (case py_get json_data ''stargazers_count'' of
                         Inl e \<Rightarrow> (Some e, w)
                       | Inr s \<Rightarrow>
                           (case dao_update_stars (db w) (url project) s of
                              Inl e \<Rightarrow> (Some e, w)
                            | Inr db' \<Rightarrow>
                                (None, w\<lparr>db := db', logged := logged w @
                                   [(INFO, ''Updating star count for %s: %d'',
                                     [PStr (url project), s])]\<rparr>))))))"

fun update_stars_projects :: "externals \<Rightarrow> repository list \<Rightarrow> world \<Rightarrow> outcome" where
  "update_stars_projects ext [] w = (None, w)"
| "update_stars_projects ext (project # rest) w =
     (case update_stars_project ext project w of
        (Some e, w') \<Rightarrow> (Some e, w')
      | (None, w') \<Rightarrow> update_stars_projects ext rest w')"

fun update_stars_tiers :: "externals \<Rightarrow> string list \<Rightarrow> world \<Rightarrow> outcome" where
  "update_stars_tiers ext [] w = (None, w)"
| "update_stars_tiers ext (t # ts) w =
     (case update_stars_projects ext (get_repos_by_tier (db w) t) w of
        (Some e, w') \<Rightarrow> (Some e, w')
      | (None, w') \<Rightarrow> update_stars_tiers ext ts w')"

definition update_stars :: "externals \<Rightarrow> world \<Rightarrow> outcome" where
  "update_stars ext w = update_stars_tiers ext (tier_all ext) w"

section \<open>Manager.add_results_from_artifacts\<close>

text \<open>
  \<open>test_json.pop(key)\<close>: a dictionary gives the value and loses the key, or raises
  \<open>KeyError\<close>; a list refuses a string as an index; nothing else has the method.
\<close>

definition py_pop :: "pyval \<Rightarrow> string \<Rightarrow> error + (pyval \<times> pyval)" where
  "py_pop v k =
     (case v of
        PDict d \<Rightarrow>
          (case map_of d k of
             None \<Rightarrow> Inl (KeyError k)
           | Some x \<Rightarrow> Inr (x, PDict (filter (\<lambda>kv. fst kv \<noteq> k) d)))
      | PList xs \<Rightarrow> Inl TypeError
      | _ \<Rightarrow> Inl AttributeError)"

text \<open>A value inside an f-string: a string stands for itself.\<close>

definition format_value :: "externals \<Rightarrow> pyval \<Rightarrow> string" where
  "format_value ext v = (case v of PStr s \<Rightarrow> s | _ \<Rightarrow> py_str ext v)"

definition add_result_from_artifact :: "externals \<Rightarrow> string \<Rightarrow> world \<Rightarrow> outcome" where
  "add_result_from_artifact ext artifact w =
     (case json_load_file ext artifact of
        Inl e \<Rightarrow> (Some e, w)
      | Inr test_json \<Rightarrow>
          (case py_pop test_json ''repo_name'' of
             Inl e \<Rightarrow> (Some e, w)
           | Inr (repo_name, test_json') \<Rightarrow>
               (let repo_url = ''https://github.com/'' @ format_value ext repo_name in
                case from_dict ext test_json' of
                  Inl e \<Rightarrow> (Some e, w)
                | Inr tr \<Rightarrow>
                    (case dao_add_repo_test_result (db w) repo_url tr of
                       Inl e \<Rightarrow> (Some e, w)
                     | Inr db' \<Rightarrow> (None, w\<lparr>db := db'\<rparr>)))))"

fun add_results_loop :: "externals \<Rightarrow> string list \<Rightarrow> world \<Rightarrow> outcome" where
  "add_results_loop ext [] w = (None, w)"
| "add_results_loop ext (artifact # rest) w =
     (case add_result_from_artifact ext artifact w of
        (Some e, w') \<Rightarrow> (Some e, w')
      | (None, w') \<Rightarrow> add_results_loop ext rest w')"

definition add_results_from_artifacts :: "externals \<Rightarrow> string \<Rightarrow> world \<Rightarrow> outcome" where
  "add_results_from_artifacts ext path w = add_results_loop ext (rglob_json ext path) w"

section \<open>The submission parser\<close>

text \<open>
  A Python dictionary keeps its keys in insertion order; storing under a key that is
  already there replaces the value and keeps the place and the first key. \<open>eq\<close> is the
  equality of keys.
\<close>

fun dict_set :: "('k \<Rightarrow> 'k \<Rightarrow> bool) \<Rightarrow> ('k \<times> 'v) list \<Rightarrow> 'k \<Rightarrow> 'v \<Rightarrow> ('k \<times> 'v) list" where
  "dict_set eq [] k v = [(k, v)]"
| "dict_set eq ((k', v') # d) k v =
     (if eq k' k then (k', v) # d else (k', v') # dict_set eq d k v)"

fun dict_get :: "('k \<Rightarrow> 'k \<Rightarrow> bool) \<Rightarrow> ('k \<times> 'v) list \<Rightarrow> 'k \<Rightarrow> 'v option" where
  "dict_get eq [] k = None"
| "dict_get eq ((k', v') # d) k = (if eq k' k then Some v' else dict_get eq d k)"

fun dict_of_pairs :: "('k \<Rightarrow> 'k \<Rightarrow> bool) \<Rightarrow> ('k \<times> 'v) list \<Rightarrow> ('k \<times> 'v) list \<Rightarrow> ('k \<times> 'v) list" where
  "dict_of_pairs eq d [] = d"
| "dict_of_pairs eq d ((k, v) # rest) = dict_of_pairs eq (dict_set eq d k v) rest"

text \<open>
  Keys of a dictionary built from YAML values: lists and dictionaries cannot be keys, and
  \<open>True\<close> and \<open>1\<close> (\<open>False\<close> and \<open>0\<close>) are the same key.
\<close>

fun hashable :: "pyval \<Rightarrow> bool" where
  "hashable (PList xs) = False"
| "hashable (PDict d) = False"
| "hashable v = True"

fun key_int :: "pyval \<Rightarrow> int option" where
  "key_int (PBool b) = Some (if b then 1 else 0)"
| "key_int (PInt i) = Some i"
| "key_int v = None"

definition py_eq :: "pyval \<Rightarrow> pyval \<Rightarrow> bool" where
  "py_eq a b =
     (case (key_int a, key_int b) of
        (Some i, Some j) \<Rightarrow> i = j
      | (None, None) \<Rightarrow> a = b
      | _ \<Rightarrow> False)"

text \<open>\<open>v[k]\<close> for a string \<open>k\<close>: only a dictionary can be indexed by a string.\<close>

definition py_getitem :: "pyval \<Rightarrow> string \<Rightarrow> error + pyval" where
  "py_getitem v k =
     (case v of
        PDict d \<Rightarrow> (case map_of d k of None \<Rightarrow> Inl (KeyError k) | Some x \<Rightarrow> Inr x)
      | _ \<Rightarrow> Inl TypeError)"

text \<open>\<open>for form in v\<close>: a dictionary gives its keys, a string its characters.\<close>

definition py_iter :: "pyval \<Rightarrow> error + pyval list" where
  "py_iter v =
     (case v of
        PList xs \<Rightarrow> Inr xs
      | PDict d \<Rightarrow> Inr (map (\<lambda>kv. PStr (fst kv)) d)
      | PStr s \<Rightarrow> Inr (map (\<lambda>c. PStr [c]) s)
      | _ \<Rightarrow> Inl TypeError)"

text \<open>
  \<open>_clean_section\<close>: the title is the first line, the body the other lines that are not
  empty, each stripped, joined by one space. \<open>split\<close> gives at least one piece, so the
  first case does not occur.
\<close>

definition clean_section :: "string \<Rightarrow> string \<times> string" where
  "clean_section section =
     (case str_split [CHR 0x0A] section of
        [] \<Rightarrow> ([], [])
      | first # paragraphs \<Rightarrow>
          (str_strip first,
           str_join '' '' (map str_strip (filter (\<lambda>paragraph. paragraph \<noteq> []) paragraphs))))"

text \<open>
  The collaborators of the parser that are outside the sources: \<open>mdformat.text\<close>,
  \<open>Path(p).read_text()\<close> (the state of the file system), \<open>yaml.load\<close> with the safe
  loader and the constructor \<open>Repository(**args)\<close>.
\<close>

record parser_env =
  mdformat_text :: "string \<Rightarrow> string"
  read_text :: "string \<Rightarrow> error + string"
  yaml_load :: "string \<Rightarrow> error + pyval"
  Repository :: "(pyval \<times> pyval) list \<Rightarrow> error + repository"

definition template_path :: string where
  "template_path = ''.github/ISSUE_TEMPLATE/submission.yml''"

text \<open>
  One step of the comprehension that builds \<open>label_to_id\<close>: the condition
  \<open>form["type"] != "markdown"\<close>, then the key \<open>form["attributes"]["label"]\<close>, then the
  value \<open>form["id"]\<close>, then the store under the key.
\<close>

fun label_to_id_loop :: "(pyval \<times> pyval) list \<Rightarrow> pyval list \<Rightarrow> error + (pyval \<times> pyval) list" where
  "label_to_id_loop label_to_id [] = Inr label_to_id"
| "label_to_id_loop label_to_id (form # rest) =
     (case py_getitem form ''type'' of
        Inl e \<Rightarrow> Inl e
      | Inr ty \<Rightarrow>
          if ty \<noteq> PStr ''markdown'' then
            (case py_getitem form ''attributes'' of
               Inl e \<Rightarrow> Inl e
             | Inr attributes \<Rightarrow>
                 (case py_getitem attributes ''label'' of
                    Inl e \<Rightarrow> Inl e
                  | Inr label \<Rightarrow>
                      (case py_getitem form ''id'' of
                         Inl e \<Rightarrow> Inl e
                       | Inr ident \<Rightarrow>
                           if hashable label
                           then label_to_id_loop (dict_set py_eq label_to_id label ident) rest
                           else Inl TypeError)))
          else label_to_id_loop label_to_id rest)"

text \<open>The comprehension \<open>{label_to_id[key]: value for key, value in sections.items()}\<close>.\<close>

fun rekey_loop ::
  "(pyval \<times> pyval) list \<Rightarrow> (pyval \<times> string) list \<Rightarrow> (string \<times> string) list \<Rightarrow>
   error + (pyval \<times> string) list" where
  "rekey_loop label_to_id args [] = Inr args"
| "rekey_loop label_to_id args ((key, val) # rest) =
     (case dict_get py_eq label_to_id (PStr key) of
        None \<Rightarrow> Inl (KeyError key)
      | Some ident \<Rightarrow>
          if hashable ident then rekey_loop label_to_id (dict_set py_eq args ident val) rest
          else Inl TypeError)"

text \<open>The template as \<open>_section_titles_to_ids\<close> loads it, and its mapping of labels.\<close>

definition load_label_to_id :: "parser_env \<Rightarrow> error + (pyval \<times> pyval) list" where
  "load_label_to_id env =
     (case read_text env template_path of
        Inl e \<Rightarrow> Inl e
      | Inr txt \<Rightarrow>
          (case yaml_load env txt of
             Inl e \<Rightarrow> Inl e
           | Inr issue_template \<Rightarrow>
               (case py_getitem issue_template ''body'' of
                  Inl e \<Rightarrow> Inl e
                | Inr body \<Rightarrow>
                    (case py_iter body of
                       Inl e \<Rightarrow> Inl e
                     | Inr forms \<Rightarrow> label_to_id_loop [] forms))))"

definition section_titles_to_ids ::
  "parser_env \<Rightarrow> (string \<times> string) list \<Rightarrow> error + (pyval \<times> string) list" where
  "section_titles_to_ids env sections =
     (case load_label_to_id env of
        Inl e \<Rightarrow> Inl e
      | Inr label_to_id \<Rightarrow> rekey_loop label_to_id [] sections)"

text \<open>
  The sections of the formatted issue:
  \<open>defaultdict(None, [_clean_section(s) for s in issue_formatted.split("### ")[1:]])\<close>.
\<close>

definition sections_of :: "string \<Rightarrow> (string \<times> string) list" where
  "sections_of issue_formatted =
     dict_of_pairs (=) [] (map clean_section (drop 1 (str_split ''### '' issue_formatted)))"

text \<open>
  The lines of \<open>parse_submission_issue\<close> that replace the placeholder by \<open>None\<close> and then
  set \<open>args["labels"]\<close>. The last case does not occur: a value is \<open>None\<close> or a string.
\<close>

definition no_response :: "(pyval \<times> string) list \<Rightarrow> (pyval \<times> pyval) list" where
  "no_response args =
     map (\<lambda>kv. (fst kv, if snd kv = ''_No response_'' then PNone else PStr (snd kv))) args"

definition set_labels :: "(pyval \<times> pyval) list \<Rightarrow> error + (pyval \<times> pyval) list" where
  "set_labels args =
     (case dict_get py_eq args (PStr ''labels'') of
        None \<Rightarrow> Inl (KeyError ''labels'')
      | Some PNone \<Rightarrow> Inr (dict_set py_eq args (PStr ''labels'') (PList []))
      | Some (PStr s) \<Rightarrow>
          Inr (dict_set py_eq args (PStr ''labels'')
                 (PList (map (\<lambda>l. PStr (str_strip l)) (str_split '','' s))))
      | Some _ \<Rightarrow> Inl AttributeError)"

text \<open>The keyword arguments that \<open>parse_submission_issue\<close> hands to \<open>Repository\<close>.\<close>

definition submission_args :: "parser_env \<Rightarrow> string \<Rightarrow> error + (pyval \<times> pyval) list" where
  "submission_args env body_of_issue =
     (let issue_formatted = mdformat_text env body_of_issue;
          sections = sections_of issue_formatted
      in case section_titles_to_ids env sections of
           Inl e \<Rightarrow> Inl e
         | Inr args \<Rightarrow> set_labels (no_response args))"

definition parse_submission_issue :: "parser_env \<Rightarrow> string \<Rightarrow> error + repository" where
  "parse_submission_issue env body_of_issue =
     (case submission_args env body_of_issue of
        Inl e \<Rightarrow> Inl e
      | Inr args \<Rightarrow> Repository env args)"

section \<open>CliCI.add_member_from_issue\<close>

text \<open>
  A call of \<open>parse_submission_issue\<close> with a list of positional arguments: the function
  has one parameter.
\<close>

definition call_parse_submission_issue :: "parser_env \<Rightarrow> pyval list \<Rightarrow> error + repository" where
  "call_parse_submission_issue env arguments =
     (case arguments of
        [PStr body_of_issue] \<Rightarrow> parse_submission_issue env body_of_issue
      | _ \<Rightarrow> Inl TypeError)"

text \<open>
  The static method has the parameter \<open>body\<close> only, so the name \<open>self\<close> is looked up among
  the globals of the module. \<open>self_global\<close> is what is bound there: \<open>None\<close> for the module
  as it is written, which binds no such name, otherwise the attributes of the object. The
  arguments of a call are evaluated before the call, left to right.
\<close>

definition add_member_from_issue ::
  "(string \<times> pyval) list option \<Rightarrow> parser_env \<Rightarrow> string \<Rightarrow> store \<Rightarrow> error option \<times> store" where
  "add_member_from_issue self_global env body st =
     (case self_global of
        None \<Rightarrow> (Some (NameError ''self''), st)
      | Some attrs \<Rightarrow>
          (case map_of attrs ''current_dir'' of
             None \<Rightarrow> (Some AttributeError, st)
           | Some current_dir \<Rightarrow>
               (case call_parse_submission_issue env [PStr body, current_dir] of
                  Inl e \<Rightarrow> (Some e, st)
                | Inr parsed_result \<Rightarrow>
                    (case map_of attrs ''dao'' of
                       None \<Rightarrow> (Some AttributeError, st)
                     | Some dao \<Rightarrow> (None, dao_write st parsed_result)))))"

section \<open>Example data\<close>

text \<open>
  A registry member as \<open>add_repo_2db\<close> creates it, with no optional field, and
  collaborators that answer every request with a given response and decode every text
  to a given value; the examples below are built from them.
\<close>

definition example_member :: "string \<Rightarrow> string \<Rightarrow> repository" where
  "example_member n u =
     \<lparr>name = n, url = u, description = None, licence = None, contact_info = None,
       alternatives = None, affiliations = None, labels = [], website = None,
       tier = ''Community'', stars = PNone, skip_tests = False, tests_results = []\<rparr>"

definition example_externals :: "(string \<Rightarrow> error + response) \<Rightarrow> (string \<Rightarrow> error + pyval) \<Rightarrow> externals" where
  "example_externals get decode =
     \<lparr>tier_all = [''Main'', ''Community''], requests_get = get, json_loads = decode,
       can_open = (\<lambda>p. True), rglob_json = (\<lambda>p. [p @ ''/a.json'', p @ ''/b.json'']),
       json_load_file = decode, py_str = (\<lambda>v. ''None''),
       from_dict = (\<lambda>v. Inr \<lparr>test_type = ''standard'', passed = True\<rparr>)\<rparr>"

text \<open>
  Two artifact files: \<open>artifacts/a.json\<close> holds a result for \<open>x/foo\<close>, any other file
  cannot be decoded.
\<close>

definition example_decode :: "string \<Rightarrow> error + pyval" where
  "example_decode p =
     (if p = ''artifacts/a.json''
      then Inr (PDict [(''repo_name'', PStr ''x/foo''), (''test_type'', PStr ''standard''),
                       (''passed'', PBool True)])
      else Inl JSONDecodeError)"

text \<open>
  An issue template with a markdown block and the fields \<open>Name\<close>, \<open>Repository\<close> and
  \<open>Labels\<close>; a second one that gives the ids of \<open>Name\<close> and \<open>Repository\<close> the other way
  round; a YAML loader that reads the text \<open>swapped\<close> as the second template and any other
  text as the first; and a constructor that needs a name and a URL and takes the labels.
\<close>

definition example_field :: "string \<Rightarrow> string \<Rightarrow> pyval" where
  "example_field l i =
     PDict [(''type'', PStr ''input''), (''id'', PStr i),
            (''attributes'', PDict [(''label'', PStr l)])]"

definition example_template :: "string \<Rightarrow> string \<Rightarrow> pyval" where
  "example_template name_id repository_id =
     PDict [(''name'', PStr ''Submission''),
            (''body'',
             PList [PDict [(''type'', PStr ''markdown''),
                           (''attributes'', PDict [(''value'', PStr ''Thanks'')])],
                    example_field ''Name'' name_id,
                    example_field ''Repository'' repository_id,
                    example_field ''Labels'' ''labels''])]"

definition example_yaml :: "string \<Rightarrow> error + pyval" where
  "example_yaml txt =
     (if txt = ''swapped'' then Inr (example_template ''url'' ''name'')
      else Inr (example_template ''name'' ''url''))"

fun example_label :: "pyval \<Rightarrow> string" where
  "example_label (PStr s) = s"
| "example_label v = []"

definition example_Repository :: "(pyval \<times> pyval) list \<Rightarrow> error + repository" where
  "example_Repository args =
     (case (dict_get py_eq args (PStr ''name''), dict_get py_eq args (PStr ''url''),
            dict_get py_eq args (PStr ''labels'')) of
        (Some (PStr n), Some (PStr u), Some (PList ls)) \<Rightarrow>
          Inr ((example_member n u)\<lparr>labels := map example_label ls\<rparr>)
      | _ \<Rightarrow> Inl TypeError)"

definition example_parser_env ::
  "(string \<Rightarrow> error + string) \<Rightarrow> (string \<Rightarrow> error + pyval) \<Rightarrow> parser_env" where
  "example_parser_env fs load =
     \<lparr>mdformat_text = (\<lambda>s. s), read_text = fs, yaml_load = load,
       Repository = example_Repository\<rparr>"

definition example_issue :: "string \<Rightarrow> string" where
  "example_issue labels_body =
     ''### Name\<newline>\<newline>Foo\<newline>\<newline>### Repository\<newline>\<newline>https://github.com/x/foo\<newline>\<newline>### Labels\<newline>\<newline>''
     @ labels_body @ ''\<newline>''"

section \<open>Properties\<close>

lemma split_from_not_Nil: "split_from c cs cur s \<noteq> []"
  by (induction c cs cur s rule: split_from.induct) auto

lemma repo_names_loop_eq:
  "repo_names_loop acc rs =
     acc @ map (\<lambda>r. repo_test_name (url r)) (filter (\<lambda>r. \<not> skip_tests r) rs)"
  by (induction rs arbitrary: acc) auto

lemma tests_passed_loop_eq:
  "tests_passed_loop b ts =
     (b \<and> \<not> (\<exists>t \<in> set ts. test_type t = ''standard'' \<and> \<not> passed t))"
  by (induction ts arbitrary: b) auto

lemma split_from_no_sep:
  "c \<notin> set s \<Longrightarrow> split_from c [] cur s = [rev cur @ s]"
  by (induction s arbitrary: cur) auto

lemma split_from_piece:
  "c \<notin> set s \<Longrightarrow> split_from c [] cur (s @ c # rest) = (rev cur @ s) # split_from c [] [] rest"
  by (induction s arbitrary: cur) auto

lemma repo_test_name_github:
  assumes "CHR ''/'' \<notin> set owner" "CHR ''/'' \<notin> set repo"
  shows "repo_test_name (''https://github.com/'' @ owner @ ''/'' @ repo) = owner @ ''/'' @ repo"
  using assms by (simp add: repo_test_name_def str_split_def split_from_piece split_from_no_sep)

text \<open>
  C6: \<open>list_repos_for_testing\<close> returns (serialised by \<open>json.dumps\<close>) exactly the records
  whose \<open>skip_tests\<close> flag is false, in store order, each rendered as pieces 4 and 5 of its
  URL split at \<open>/\<close> and joined by \<open>/\<close>; of the records A (kept), B (skipped), C (kept)
  it returns A and C; and for a URL \<open>https://github.com/{owner}/{repo}\<close> the rendering is
  \<open>{owner}/{repo}\<close>.
\<close>

theorem list_repos_for_testing_selects:
  "list_repos_for_testing json_dumps st =
     json_dumps (map (\<lambda>r. str_join ''/'' (take 2 (drop 3 (str_split ''/'' (url r)))))
                   (filter (\<lambda>r. \<not> skip_tests r) (map snd st)))
   \<and> list_repos_for_testing json_dumps
        [(url a, a\<lparr>skip_tests := False\<rparr>), (url b, b\<lparr>skip_tests := True\<rparr>),
         (url c, c\<lparr>skip_tests := False\<rparr>)] =
       json_dumps [repo_test_name (url a), repo_test_name (url c)]
   \<and> (CHR ''/'' \<notin> set owner \<and> CHR ''/'' \<notin> set repo \<longrightarrow>
        repo_test_name (''https://github.com/'' @ owner @ ''/'' @ repo) = owner @ ''/'' @ repo)"
proof (intro conjI impI)
  show "list_repos_for_testing json_dumps st =
     json_dumps (map (\<lambda>r. str_join ''/'' (take 2 (drop 3 (str_split ''/'' (url r)))))
                   (filter (\<lambda>r. \<not> skip_tests r) (map snd st)))"
    by (simp add: list_repos_for_testing_def storage_read_values_def repo_names_loop_eq
        repo_test_name_def)
  show "list_repos_for_testing json_dumps
        [(url a, a\<lparr>skip_tests := False\<rparr>), (url b, b\<lparr>skip_tests := True\<rparr>),
         (url c, c\<lparr>skip_tests := False\<rparr>)] =
       json_dumps [repo_test_name (url a), repo_test_name (url c)]"
    by (simp add: list_repos_for_testing_def storage_read_values_def)
next
  assume "CHR ''/'' \<notin> set owner \<and> CHR ''/'' \<notin> set repo"
  then show "repo_test_name (''https://github.com/'' @ owner @ ''/'' @ repo) = owner @ ''/'' @ repo"
    using repo_test_name_github [of owner repo] by blast
qed

theorem list_repos_for_testing_selects_witness:
  "CHR ''/'' \<notin> set ''x'' \<and> CHR ''/'' \<notin> set ''foo''
   \<and> repo_test_name ''https://github.com/x/foo'' = ''x/foo''
   \<and> list_repos_for_testing (\<lambda>names. names)
        [(''https://github.com/x/foo'',
          \<lparr>name = ''Foo'', url = ''https://github.com/x/foo'', description = None,
            licence = None, contact_info = None, alternatives = None, affiliations = None,
            labels = [], website = None, tier = ''Community'', stars = PNone,
            skip_tests = False, tests_results = []\<rparr>),
         (''https://github.com/y/bar'',
          \<lparr>name = ''Bar'', url = ''https://github.com/y/bar'', description = None,
            licence = None, contact_info = None, alternatives = None, affiliations = None,
            labels = [], website = None, tier = ''Community'', stars = PNone,
            skip_tests = True, tests_results = []\<rparr>)] = [''x/foo'']"
  using list_repos_for_testing_selects [of "\<lambda>names. names" _ _ _ _ "''x''" "''foo''"]
  by (simp add: list_repos_for_testing_def storage_read_values_def)

text \<open>
  C2: the badge colour is gray exactly when the record has a result of type standard that
  did not pass, and blueviolet otherwise; a failing standard result anywhere sets
  \<open>tests_passed\<close> to false whatever follows it; the three examples of the spec.
\<close>

theorem badge_color_any_failure_wins:
  "badge_color project =
     (if \<exists>t \<in> set (tests_results project). test_type t = ''standard'' \<and> \<not> passed t
      then ''gray'' else ''blueviolet'')
   \<and> tests_passed_loop b (pre @ \<lparr>test_type = ''standard'', passed = False\<rparr> # post) = False
   \<and> badge_color (project\<lparr>tests_results :=
         [\<lparr>test_type = ''standard'', passed = True\<rparr>,
          \<lparr>test_type = ''standard'', passed = False\<rparr>]\<rparr>) = ''gray''
   \<and> badge_color (project\<lparr>tests_results :=
         [\<lparr>test_type = ''standard'', passed = True\<rparr>]\<rparr>) = ''blueviolet''
   \<and> badge_color (project\<lparr>tests_results :=
         [\<lparr>test_type = ''other'', passed = False\<rparr>]\<rparr>) = ''blueviolet''"
  by (simp add: badge_color_def tests_passed_loop_eq)

theorem badge_color_any_failure_wins_witness:
  "(\<exists>t \<in> set [\<lparr>test_type = ''standard'', passed = False\<rparr>,
                 \<lparr>test_type = ''standard'', passed = True\<rparr>].
      test_type t = ''standard'' \<and> \<not> passed t)
   \<and> badge_color
        \<lparr>name = ''Foo'', url = ''https://github.com/x/foo'', description = None,
          licence = None, contact_info = None, alternatives = None, affiliations = None,
          labels = [], website = None, tier = ''Community'', stars = PNone,
          skip_tests = False,
          tests_results = [\<lparr>test_type = ''standard'', passed = False\<rparr>,
                           \<lparr>test_type = ''standard'', passed = True\<rparr>]\<rparr> = ''gray''"
  using badge_color_any_failure_wins
    [of "\<lparr>name = ''Foo'', url = ''https://github.com/x/foo'', description = None,
          licence = None, contact_info = None, alternatives = None, affiliations = None,
          labels = [], website = None, tier = ''Community'', stars = PNone,
          skip_tests = False,
          tests_results = [\<lparr>test_type = ''standard'', passed = False\<rparr>,
                           \<lparr>test_type = ''standard'', passed = True\<rparr>]\<rparr>"]
  by simp

lemma map_of_map_record:
  "map_of (map_record f u st) k = (if k = u then map_option f (map_of st u) else map_of st k)"
  by (induction f u st rule: map_record.induct) auto

text \<open>
  C5: in \<open>update_stars\<close>, when the query for a record is answered with a response that
  is not a success, the step for that record ends without an exception, the store is
  left as it was (no update is issued, so the record's stars are not changed), a warning
  is logged, and the loop goes on with the next record.
\<close>

theorem update_stars_skips_bad_response:
  assumes "stars_api_url (url project) = Inr u"
      and "requests_get ext u = Inr resp"
      and "\<not> ok resp"
  shows "update_stars_project ext project w =
           (None, w\<lparr>logged := logged w @
              [(WARNING, ''Bad response for project %s'', [PStr (url project)])]\<rparr>)
         \<and> db (snd (update_stars_project ext project w)) = db w
         \<and> update_stars_projects ext (project # rest) w =
             update_stars_projects ext rest
               (w\<lparr>logged := logged w @
                  [(WARNING, ''Bad response for project %s'', [PStr (url project)])]\<rparr>)"
  using assms by (simp add: update_stars_project_def)

theorem update_stars_skips_bad_response_witness:
  "stars_api_url (url (example_member ''Foo'' ''https://github.com/x/foo'')) =
     Inr ''http://api.github.com/repos/x/foo''
   \<and> requests_get
        (example_externals (\<lambda>u. Inr \<lparr>ok = False, content = ''Not Found'', resp_text = ''Not Found''\<rparr>)
           (\<lambda>t. Inl JSONDecodeError))
        ''http://api.github.com/repos/x/foo'' =
      Inr \<lparr>ok = False, content = ''Not Found'', resp_text = ''Not Found''\<rparr>
   \<and> \<not> ok \<lparr>ok = False, content = ''Not Found'', resp_text = ''Not Found''\<rparr>
   \<and> update_stars_project
        (example_externals (\<lambda>u. Inr \<lparr>ok = False, content = ''Not Found'', resp_text = ''Not Found''\<rparr>)
           (\<lambda>t. Inl JSONDecodeError))
        (example_member ''Foo'' ''https://github.com/x/foo'')
        \<lparr>db = [(''https://github.com/x/foo'',
                 (example_member ''Foo'' ''https://github.com/x/foo'')\<lparr>stars := PInt 5\<rparr>)],
          files = Map.empty, logged = []\<rparr> =
      (None,
       \<lparr>db = [(''https://github.com/x/foo'',
                 (example_member ''Foo'' ''https://github.com/x/foo'')\<lparr>stars := PInt 5\<rparr>)],
         files = Map.empty,
         logged = [(WARNING, ''Bad response for project %s'', [PStr ''https://github.com/x/foo''])]\<rparr>)"
proof -
  have a: "stars_api_url (url (example_member ''Foo'' ''https://github.com/x/foo'')) =
     Inr ''http://api.github.com/repos/x/foo''"
    by (simp add: stars_api_url_def example_member_def str_split_def)
  have b: "requests_get
        (example_externals (\<lambda>u. Inr \<lparr>ok = False, content = ''Not Found'', resp_text = ''Not Found''\<rparr>)
           (\<lambda>t. Inl JSONDecodeError))
        ''http://api.github.com/repos/x/foo'' =
      Inr \<lparr>ok = False, content = ''Not Found'', resp_text = ''Not Found''\<rparr>"
    by (simp add: example_externals_def)
  have c: "\<not> ok \<lparr>ok = False, content = ''Not Found'', resp_text = ''Not Found''\<rparr>"
    by simp
  show ?thesis
    using update_stars_skips_bad_response [OF a b c] a b by (simp add: example_member_def)
qed

text \<open>
  C10: in \<open>update_stars\<close>, when the response is a success and its JSON object has no
  \<open>stargazers_count\<close>, the record is not skipped: the store's field update is issued
  with \<open>None\<close>, and the record stored under the URL then has \<open>None\<close> as its stars,
  whatever count it had before.
\<close>

theorem update_stars_missing_count_stores_None:
  assumes "stars_api_url (url project) = Inr u"
      and "requests_get ext u = Inr resp"
      and "ok resp"
      and "json_loads ext (resp_text resp) = Inr (PDict d)"
      and "map_of d ''stargazers_count'' = None"
      and "map_of (db w) (url project) = Some old"
  shows "update_stars_project ext project w =
           (None, w\<lparr>db := map_record (\<lambda>r. r\<lparr>stars := PNone\<rparr>) (url project) (db w),
                     logged := logged w @
                       [(INFO, ''Updating star count for %s: %d'', [PStr (url project), PNone])]\<rparr>)
         \<and> map_of (db (snd (update_stars_project ext project w))) (url project) =
             Some (old\<lparr>stars := PNone\<rparr>)"
proof -
  from assms(6) have "url project \<in> fst ` set (db w)"
    by (metis domI dom_map_of_conv_image_fst)
  with assms show ?thesis
    by (simp add: update_stars_project_def py_get_def dao_update_stars_def map_of_map_record)
qed

theorem update_stars_missing_count_stores_None_witness:
  "map_of (db (snd (update_stars_project
        (example_externals (\<lambda>u. Inr \<lparr>ok = True, content = ''{}'', resp_text = ''{}''\<rparr>)
           (\<lambda>t. Inr (PDict [])))
        (example_member ''Foo'' ''https://github.com/x/foo'')
        \<lparr>db = [(''https://github.com/x/foo'',
                 (example_member ''Foo'' ''https://github.com/x/foo'')\<lparr>stars := PInt 5\<rparr>)],
          files = Map.empty, logged = []\<rparr>))) ''https://github.com/x/foo'' =
     Some (example_member ''Foo'' ''https://github.com/x/foo'')"
proof -
  let ?p = "example_member ''Foo'' ''https://github.com/x/foo''"
  let ?r = "\<lparr>ok = True, content = ''{}'', resp_text = ''{}''\<rparr>"
  let ?ext = "example_externals (\<lambda>u. Inr ?r) (\<lambda>t. Inr (PDict []))"
  let ?w = "\<lparr>db = [(''https://github.com/x/foo'', ?p\<lparr>stars := PInt 5\<rparr>)],
          files = Map.empty, logged = []\<rparr>"
  have a: "stars_api_url (url ?p) = Inr ''http://api.github.com/repos/x/foo''"
    by (simp add: stars_api_url_def example_member_def str_split_def)
  have b: "requests_get ?ext ''http://api.github.com/repos/x/foo'' = Inr ?r"
    by (simp add: example_externals_def)
  have c: "ok ?r" by simp
  have d: "json_loads ?ext (resp_text ?r) = Inr (PDict [])"
    by (simp add: example_externals_def)
  have e: "map_of ([] :: (string \<times> pyval) list) ''stargazers_count'' = None" by simp
  have f: "map_of (db ?w) (url ?p) = Some (?p\<lparr>stars := PInt 5\<rparr>)"
    by (simp add: example_member_def)
  show ?thesis
    using update_stars_missing_count_stores_None [OF a b c d e f] by (simp add: example_member_def)
qed

text \<open>
  C4: what \<open>update_badges\<close> does when the badge request does not succeed. A response that
  is not a success is not looked at: its content is written to the badge file and the
  update is logged as for a success. When \<open>requests.get\<close> raises, the exception ends
  the command at that record, and the records after it get no badge.
\<close>

theorem update_badges_failed_fetch_writes_file:
  "update_badges
     (example_externals (\<lambda>u. Inr \<lparr>ok = False, content = ''Not Found'', resp_text = ''Not Found''\<rparr>)
        (\<lambda>t. Inl JSONDecodeError))
     ''/repo''
     \<lparr>db = [(''https://github.com/x/foo'', example_member ''Foo'' ''https://github.com/x/foo'')],
       files = Map.empty, logged = []\<rparr> =
   (None,
    \<lparr>db = [(''https://github.com/x/foo'', example_member ''Foo'' ''https://github.com/x/foo'')],
      files = [''/repo/badges/Foo.svg'' \<mapsto> ''Not Found''],
      logged = [(INFO, ''Badge for %s has been updated.'', [PStr ''Foo''])]\<rparr>)
   \<and> update_badges
     (example_externals (\<lambda>u. Inl ConnectionError) (\<lambda>t. Inl JSONDecodeError))
     ''/repo''
     \<lparr>db = [(''https://github.com/x/foo'', example_member ''Foo'' ''https://github.com/x/foo''),
             (''https://github.com/y/bar'', example_member ''Bar'' ''https://github.com/y/bar'')],
       files = Map.empty, logged = []\<rparr> =
   (Some ConnectionError,
    \<lparr>db = [(''https://github.com/x/foo'', example_member ''Foo'' ''https://github.com/x/foo''),
            (''https://github.com/y/bar'', example_member ''Bar'' ''https://github.com/y/bar'')],
      files = Map.empty, logged = []\<rparr>)"
  by (simp add: update_badges_def example_externals_def example_member_def get_repos_by_tier_def
      update_badges_project_def)

lemma add_results_loop_append:
  "add_results_loop ext (xs @ ys) w =
     (case add_results_loop ext xs w of
        (Some e, w') \<Rightarrow> (Some e, w')
      | (None, w') \<Rightarrow> add_results_loop ext ys w')"
  by (induction xs arbitrary: w) (auto split: prod.splits option.splits)

text \<open>
  C7 (as amended): in \<open>add_results_from_artifacts\<close> an artifact that cannot be decoded is
  not skipped: the command ends at it with the decode error, and no artifact after it is
  read. The results of the artifacts before it, once they were ingested without an
  exception, are in the store and stay there.
\<close>

theorem add_results_stops_at_malformed:
  assumes "rglob_json ext path = pre @ bad # post"
      and "add_results_loop ext pre w = (None, w')"
      and "json_load_file ext bad = Inl e"
  shows "add_results_from_artifacts ext path w = (Some e, w')"
  using assms
  by (simp add: add_results_from_artifacts_def add_results_loop_append add_result_from_artifact_def)

theorem add_results_stops_at_malformed_witness:
  "rglob_json (example_externals (\<lambda>u. Inl ConnectionError) example_decode) ''artifacts'' =
     [''artifacts/a.json''] @ ''artifacts/b.json'' # []
   \<and> json_load_file (example_externals (\<lambda>u. Inl ConnectionError) example_decode)
        ''artifacts/b.json'' = Inl JSONDecodeError
   \<and> add_results_from_artifacts
     (example_externals (\<lambda>u. Inl ConnectionError) example_decode) ''artifacts''
     \<lparr>db = [(''https://github.com/x/foo'', example_member ''Foo'' ''https://github.com/x/foo'')],
       files = Map.empty, logged = []\<rparr> =
   (Some JSONDecodeError,
    \<lparr>db = [(''https://github.com/x/foo'',
            (example_member ''Foo'' ''https://github.com/x/foo'')
              \<lparr>tests_results := [\<lparr>test_type = ''standard'', passed = True\<rparr>]\<rparr>)],
      files = Map.empty, logged = []\<rparr>)"
proof -
  let ?ext = "example_externals (\<lambda>u. Inl ConnectionError) example_decode"
  let ?m = "example_member ''Foo'' ''https://github.com/x/foo''"
  let ?w = "\<lparr>db = [(''https://github.com/x/foo'', ?m)], files = Map.empty, logged = []\<rparr>"
  let ?w' = "\<lparr>db = [(''https://github.com/x/foo'',
                 ?m\<lparr>tests_results := [\<lparr>test_type = ''standard'', passed = True\<rparr>]\<rparr>)],
              files = Map.empty, logged = []\<rparr>"
  have a: "rglob_json ?ext ''artifacts'' = [''artifacts/a.json''] @ ''artifacts/b.json'' # []"
    by (simp add: example_externals_def)
  have b: "add_results_loop ?ext [''artifacts/a.json''] ?w = (None, ?w')"
    by (simp add: example_externals_def example_decode_def
      add_result_from_artifact_def py_pop_def format_value_def dao_add_repo_test_result_def
      example_member_def Let_def)
  have c: "json_load_file ?ext ''artifacts/b.json'' = Inl JSONDecodeError"
    by (simp add: example_externals_def example_decode_def)
  show ?thesis
    using add_results_stops_at_malformed [OF a b c] a c by simp
qed

text \<open>
  C7 as stated fails: of two artifacts, the first well formed and the second not, the
  command ends with the decode error and the store holds the result of the first, so the
  batch is not all-or-nothing.
\<close>

theorem add_results_not_all_or_nothing:
  "add_results_from_artifacts
     (example_externals (\<lambda>u. Inl ConnectionError) example_decode) ''artifacts''
     \<lparr>db = [(''https://github.com/x/foo'', example_member ''Foo'' ''https://github.com/x/foo'')],
       files = Map.empty, logged = []\<rparr> =
   (Some JSONDecodeError,
    \<lparr>db = [(''https://github.com/x/foo'',
            (example_member ''Foo'' ''https://github.com/x/foo'')
              \<lparr>tests_results := [\<lparr>test_type = ''standard'', passed = True\<rparr>]\<rparr>)],
      files = Map.empty, logged = []\<rparr>)
   \<and> db (snd (add_results_from_artifacts
         (example_externals (\<lambda>u. Inl ConnectionError) example_decode) ''artifacts''
         \<lparr>db = [(''https://github.com/x/foo'',
                 example_member ''Foo'' ''https://github.com/x/foo'')],
           files = Map.empty, logged = []\<rparr>)) \<noteq>
       [(''https://github.com/x/foo'', example_member ''Foo'' ''https://github.com/x/foo'')]"
  by (simp add: add_results_from_artifacts_def example_externals_def example_decode_def
      add_result_from_artifact_def py_pop_def format_value_def dao_add_repo_test_result_def
      example_member_def Let_def)

text \<open>
  C9: \<open>CliCI.add_member_from_issue\<close> raises before anything is written, for every body:
  whatever the name \<open>self\<close> is bound to, the store is unchanged and the call ends with an
  exception; in the module as written \<open>self\<close> is unbound and the exception is a
  \<open>NameError\<close>; and a call of \<open>parse_submission_issue\<close> with a second argument is a
  \<open>TypeError\<close>.
\<close>

theorem add_member_from_issue_never_writes:
  "snd (add_member_from_issue self_global env body st) = st
   \<and> fst (add_member_from_issue self_global env body st) \<noteq> None
   \<and> add_member_from_issue None env body st = (Some (NameError ''self''), st)
   \<and> call_parse_submission_issue env [PStr body, current_dir] = Inl TypeError"
  by (simp add: add_member_from_issue_def call_parse_submission_issue_def
      split: option.splits)

lemma py_eq_refl: "py_eq a a"
  by (cases a) (simp_all add: py_eq_def)

lemma dict_get_dict_set_same: "eq k k \<Longrightarrow> dict_get eq (dict_set eq d k v) k = Some v"
  by (induction d) auto

lemma dict_get_no_response:
  "dict_get py_eq (no_response args) k =
     map_option (\<lambda>v. if v = ''_No response_'' then PNone else PStr v) (dict_get py_eq args k)"
  by (induction args) (auto simp: no_response_def)

lemma length_split_from: "length (split_from c [] cur s) = Suc (count_list s c)"
  by (induction s arbitrary: cur) auto

lemma label_to_id_loop_append:
  "label_to_id_loop m (xs @ ys) =
     (case label_to_id_loop m xs of Inl e \<Rightarrow> Inl e | Inr m' \<Rightarrow> label_to_id_loop m' ys)"
  by (induction xs arbitrary: m) (auto split: sum.splits)

lemma example_args:
  "section_titles_to_ids (example_parser_env (\<lambda>p. Inr ''t'') example_yaml)
     (sections_of (example_issue ''a,,b'')) =
   Inr [(PStr ''name'', ''Foo''), (PStr ''url'', ''https://github.com/x/foo''),
        (PStr ''labels'', ''a,,b'')]"
  by (simp add: section_titles_to_ids_def load_label_to_id_def example_parser_env_def
      example_yaml_def example_template_def example_field_def py_getitem_def py_iter_def
      py_eq_def sections_of_def example_issue_def str_split_def clean_section_def
      str_strip_def isspace_def template_path_def)

text \<open>
  C1 (as amended): for a submission whose sections are resolved without an error, when a
  section has the id \<open>labels\<close> the labels handed to \<open>Repository\<close> are the empty list if the
  body of the section is the placeholder \<open>_No response_\<close>, and otherwise the body split
  at every comma with each piece trimmed, the empty pieces kept (there is one piece more
  than there are commas); the labels are then a list, never absent. When no section has
  the id \<open>labels\<close>, parsing raises \<open>KeyError\<close>. The body \<open>a, b ,c\<close> gives the pieces
  \<open>a\<close>, \<open>b\<close>, \<open>c\<close> in this order.
\<close>

theorem labels_split_keeps_empty_pieces:
  "(section_titles_to_ids env (sections_of (mdformat_text env body)) = Inr args \<longrightarrow>
      (case dict_get py_eq args (PStr ''labels'') of
         None \<Rightarrow> submission_args env body = Inl (KeyError ''labels'')
       | Some s \<Rightarrow>
           (\<exists>args'. submission_args env body = Inr args' \<and>
              dict_get py_eq args' (PStr ''labels'') =
                Some (PList (if s = ''_No response_'' then []
                             else map (\<lambda>l. PStr (str_strip l)) (str_split '','' s))))))
   \<and> length (str_split '','' s') = Suc (count_list s' (CHR '',''))
   \<and> map str_strip (str_split '','' ''a, b ,c'') = [''a'', ''b'', ''c'']"
proof (intro conjI impI)
  assume a: "section_titles_to_ids env (sections_of (mdformat_text env body)) = Inr args"
  show "case dict_get py_eq args (PStr ''labels'') of
         None \<Rightarrow> submission_args env body = Inl (KeyError ''labels'')
       | Some s \<Rightarrow>
           (\<exists>args'. submission_args env body = Inr args' \<and>
              dict_get py_eq args' (PStr ''labels'') =
                Some (PList (if s = ''_No response_'' then []
                             else map (\<lambda>l. PStr (str_strip l)) (str_split '','' s))))"
  proof (cases "dict_get py_eq args (PStr ''labels'')")
    case None
    with a show ?thesis
      by (simp add: submission_args_def set_labels_def dict_get_no_response)
  next
    case (Some s)
    with a show ?thesis
      by (simp add: submission_args_def set_labels_def dict_get_no_response
          dict_get_dict_set_same py_eq_refl)
  qed
next
  show "length (str_split '','' s') = Suc (count_list s' (CHR '',''))"
    by (simp add: str_split_def length_split_from)
  show "map str_strip (str_split '','' ''a, b ,c'') = [''a'', ''b'', ''c'']"
    by (simp add: str_split_def str_strip_def isspace_def)
qed

theorem labels_split_keeps_empty_pieces_witness:
  "section_titles_to_ids (example_parser_env (\<lambda>p. Inr ''t'') example_yaml)
     (sections_of (mdformat_text (example_parser_env (\<lambda>p. Inr ''t'') example_yaml)
        (example_issue ''a,,b''))) =
   Inr [(PStr ''name'', ''Foo''), (PStr ''url'', ''https://github.com/x/foo''),
        (PStr ''labels'', ''a,,b'')]
   \<and> (\<exists>args'. submission_args (example_parser_env (\<lambda>p. Inr ''t'') example_yaml)
                 (example_issue ''a,,b'') = Inr args' \<and>
              dict_get py_eq args' (PStr ''labels'') =
                Some (PList [PStr ''a'', PStr '''', PStr ''b'']))"
proof -
  let ?env = "example_parser_env (\<lambda>p. Inr ''t'') example_yaml"
  let ?args = "[(PStr ''name'', ''Foo''), (PStr ''url'', ''https://github.com/x/foo''),
        (PStr ''labels'', ''a,,b'')]"
  have m: "mdformat_text ?env (example_issue ''a,,b'') = example_issue ''a,,b''"
    by (simp add: example_parser_env_def)
  have a: "section_titles_to_ids ?env (sections_of (mdformat_text ?env (example_issue ''a,,b'')))
             = Inr ?args"
    unfolding m by (rule example_args)
  have g: "dict_get py_eq ?args (PStr ''labels'') = Some ''a,,b''"
    by (simp add: py_eq_def)
  have sp: "map (\<lambda>l. PStr (str_strip l)) (str_split '','' ''a,,b'') =
              [PStr ''a'', PStr '''', PStr ''b'']"
    by (simp add: str_split_def str_strip_def isspace_def)
  from labels_split_keeps_empty_pieces [of ?env "example_issue ''a,,b''" ?args] a
  have "case dict_get py_eq ?args (PStr ''labels'') of
         None \<Rightarrow> submission_args ?env (example_issue ''a,,b'') = Inl (KeyError ''labels'')
       | Some s \<Rightarrow>
           (\<exists>args'. submission_args ?env (example_issue ''a,,b'') = Inr args' \<and>
              dict_get py_eq args' (PStr ''labels'') =
                Some (PList (if s = ''_No response_'' then []
                             else map (\<lambda>l. PStr (str_strip l)) (str_split '','' s))))"
    by blast
  then have "\<exists>args'. submission_args ?env (example_issue ''a,,b'') = Inr args' \<and>
              dict_get py_eq args' (PStr ''labels'') =
                Some (PList [PStr ''a'', PStr '''', PStr ''b''])"
    unfolding g by (simp add: sp)
  with a show ?thesis by blast
qed

text \<open>
  C1 as stated fails: the labels body \<open>a,,b\<close> gives three labels, the second one empty;
  an empty labels body gives one empty label, not the empty list; and a submission with
  no labels section raises \<open>KeyError\<close>.
\<close>

theorem labels_empty_pieces_not_dropped:
  "parse_submission_issue (example_parser_env (\<lambda>p. Inr ''t'') example_yaml)
     (example_issue ''a,,b'') =
   Inr ((example_member ''Foo'' ''https://github.com/x/foo'')\<lparr>labels := [''a'', '''', ''b'']\<rparr>)
   \<and> parse_submission_issue (example_parser_env (\<lambda>p. Inr ''t'') example_yaml)
     (example_issue '''') =
   Inr ((example_member ''Foo'' ''https://github.com/x/foo'')\<lparr>labels := ['''']\<rparr>)
   \<and> parse_submission_issue (example_parser_env (\<lambda>p. Inr ''t'') example_yaml)
     ''### Name\<newline>\<newline>Foo\<newline>\<newline>### Repository\<newline>\<newline>https://github.com/x/foo\<newline>'' =
   Inl (KeyError ''labels'')"
  by (simp add: parse_submission_issue_def submission_args_def set_labels_def no_response_def
      section_titles_to_ids_def load_label_to_id_def example_parser_env_def
      example_yaml_def example_template_def example_field_def py_getitem_def py_iter_def
      py_eq_def sections_of_def example_issue_def str_split_def clean_section_def
      str_strip_def isspace_def template_path_def example_Repository_def example_member_def)

text \<open>
  C3 (as amended): the resolution of the template's fields raises \<open>KeyError\<close> when a field
  descriptor that is not a markdown block has attributes without a \<open>label\<close>, or has a
  label and no \<open>id\<close>. When a descriptor repeats the label of an earlier one, no error is
  raised: the mapping built so far is updated, and the label then resolves to the id of the
  later descriptor.
\<close>

theorem label_to_id_KeyError_and_last_wins:
  "(map_of dl ''type'' = Some tyl \<and> tyl \<noteq> PStr ''markdown'' \<and>
    map_of dl ''attributes'' = Some (PDict al) \<and> map_of al ''label'' = None \<longrightarrow>
      label_to_id_loop ml (PDict dl # rl) = Inl (KeyError ''label''))
   \<and> (map_of di ''type'' = Some tyi \<and> tyi \<noteq> PStr ''markdown'' \<and>
    map_of di ''attributes'' = Some (PDict ai) \<and> map_of ai ''label'' = Some li \<and>
    map_of di ''id'' = None \<longrightarrow>
      label_to_id_loop mi (PDict di # ri) = Inl (KeyError ''id''))
   \<and> (label_to_id_loop [] forms = Inr m \<and>
    map_of d ''type'' = Some ty \<and> ty \<noteq> PStr ''markdown'' \<and>
    map_of d ''attributes'' = Some (PDict a) \<and> map_of a ''label'' = Some l \<and> hashable l \<and>
    map_of d ''id'' = Some i \<longrightarrow>
      label_to_id_loop [] (forms @ [PDict d]) = Inr (dict_set py_eq m l i) \<and>
      dict_get py_eq (dict_set py_eq m l i) l = Some i)"
  by (simp add: py_getitem_def label_to_id_loop_append dict_get_dict_set_same py_eq_refl)

theorem label_to_id_KeyError_and_last_wins_witness:
  "label_to_id_loop []
     [PDict [(''type'', PStr ''input''), (''attributes'', PDict [(''description'', PStr ''d'')])]] =
     Inl (KeyError ''label'')
   \<and> label_to_id_loop []
     [PDict [(''type'', PStr ''input''), (''attributes'', PDict [(''label'', PStr ''Name'')])]] =
     Inl (KeyError ''id'')
   \<and> label_to_id_loop [] [example_field ''Name'' ''first''] = Inr [(PStr ''Name'', PStr ''first'')]
   \<and> label_to_id_loop [] ([example_field ''Name'' ''first''] @ [example_field ''Name'' ''second'']) =
     Inr [(PStr ''Name'', PStr ''second'')]"
proof -
  let ?dl = "[(''type'', PStr ''input''), (''attributes'', PDict [(''description'', PStr ''d'')])]"
  let ?di = "[(''type'', PStr ''input''), (''attributes'', PDict [(''label'', PStr ''Name'')])]"
  let ?d = "[(''type'', PStr ''input''), (''id'', PStr ''second''),
             (''attributes'', PDict [(''label'', PStr ''Name'')])]"
  note T = label_to_id_KeyError_and_last_wins
      [where dl = ?dl and tyl = "PStr ''input''" and al = "[(''description'', PStr ''d'')]"
         and ml = "[]" and rl = "[]"
         and di = ?di and tyi = "PStr ''input''" and ai = "[(''label'', PStr ''Name'')]"
         and li = "PStr ''Name''" and mi = "[]" and ri = "[]"
         and forms = "[example_field ''Name'' ''first'']"
         and m = "[(PStr ''Name'', PStr ''first'')]"
         and d = ?d and ty = "PStr ''input''" and a = "[(''label'', PStr ''Name'')]"
         and l = "PStr ''Name''" and i = "PStr ''second''"]
  have f: "label_to_id_loop [] [example_field ''Name'' ''first''] = Inr [(PStr ''Name'', PStr ''first'')]"
    by (simp add: example_field_def py_getitem_def)
  have hl: "map_of ?dl ''type'' = Some (PStr ''input'') \<and> PStr ''input'' \<noteq> PStr ''markdown'' \<and>
    map_of ?dl ''attributes'' = Some (PDict [(''description'', PStr ''d'')]) \<and>
    map_of [(''description'', PStr ''d'')] ''label'' = None"
    by simp
  have hi: "map_of ?di ''type'' = Some (PStr ''input'') \<and> PStr ''input'' \<noteq> PStr ''markdown'' \<and>
    map_of ?di ''attributes'' = Some (PDict [(''label'', PStr ''Name'')]) \<and>
    map_of [(''label'', PStr ''Name'')] ''label'' = Some (PStr ''Name'') \<and>
    map_of ?di ''id'' = None"
    by simp
  have hd: "label_to_id_loop [] [example_field ''Name'' ''first''] =
      Inr [(PStr ''Name'', PStr ''first'')] \<and>
    map_of ?d ''type'' = Some (PStr ''input'') \<and> PStr ''input'' \<noteq> PStr ''markdown'' \<and>
    map_of ?d ''attributes'' = Some (PDict [(''label'', PStr ''Name'')]) \<and>
    map_of [(''label'', PStr ''Name'')] ''label'' = Some (PStr ''Name'') \<and>
    hashable (PStr ''Name'') \<and> map_of ?d ''id'' = Some (PStr ''second'')"
    using f by simp
  have c1: "label_to_id_loop [] [PDict ?dl] = Inl (KeyError ''label'')"
    by (rule mp [OF conjunct1 [OF T] hl])
  have c2: "label_to_id_loop [] [PDict ?di] = Inl (KeyError ''id'')"
    by (rule mp [OF conjunct1 [OF conjunct2 [OF T]] hi])
  have c3: "label_to_id_loop [] ([example_field ''Name'' ''first''] @ [PDict ?d]) =
      Inr (dict_set py_eq [(PStr ''Name'', PStr ''first'')] (PStr ''Name'') (PStr ''second''))"
    by (rule conjunct1 [OF mp [OF conjunct2 [OF conjunct2 [OF T]] hd]])
  have s: "dict_set py_eq [(PStr ''Name'', PStr ''first'')] (PStr ''Name'') (PStr ''second'') =
             [(PStr ''Name'', PStr ''second'')]"
    by (simp add: py_eq_def)
  have e: "example_field ''Name'' ''second'' = PDict ?d"
    by (simp add: example_field_def)
  show ?thesis
    unfolding e using c1 c2 c3 f by (simp only: s simp_thms)
qed

text \<open>
  C3 as stated fails: for a template whose two field descriptors share the label \<open>Name\<close>,
  \<open>_section_titles_to_ids\<close> returns normally and gives the section the id of the second.
\<close>

theorem duplicate_labels_no_error:
  "section_titles_to_ids
     (example_parser_env (\<lambda>p. Inr ''t'')
        (\<lambda>t. Inr (PDict [(''body'', PList [example_field ''Name'' ''first'',
                                            example_field ''Name'' ''second''])])))
     [(''Name'', ''Foo'')] =
   Inr [(PStr ''second'', ''Foo'')]"
  by (simp add: section_titles_to_ids_def load_label_to_id_def example_parser_env_def
      example_field_def py_getitem_def py_iter_def py_eq_def)

text \<open>
  C8 (as amended): \<open>parse_submission_issue\<close> reads the issue template file itself (inside
  \<open>_section_titles_to_ids\<close>) and writes nothing; of the state of the file system its
  result depends on the content of that one file only: two file systems that agree on the
  template file give the same result for the same body.
\<close>

theorem parse_reads_only_the_template_file:
  "fs template_path = read_text env template_path \<Longrightarrow>
     parse_submission_issue (env\<lparr>read_text := fs\<rparr>) body = parse_submission_issue env body"
  by (simp add: parse_submission_issue_def submission_args_def section_titles_to_ids_def
      load_label_to_id_def cong: sum.case_cong)

theorem parse_reads_only_the_template_file_witness:
  "(if template_path = template_path then Inr ''t'' else Inl OSError) =
     read_text (example_parser_env (\<lambda>p. Inr ''t'') example_yaml) template_path
   \<and> parse_submission_issue
       ((example_parser_env (\<lambda>p. Inr ''t'') example_yaml)
          \<lparr>read_text := (\<lambda>p. if p = template_path then Inr ''t'' else Inl OSError)\<rparr>)
       (example_issue ''a, b ,c'') =
     parse_submission_issue (example_parser_env (\<lambda>p. Inr ''t'') example_yaml)
       (example_issue ''a, b ,c'')"
proof -
  have h: "(if template_path = template_path then Inr ''t'' else Inl OSError) =
     read_text (example_parser_env (\<lambda>p. Inr ''t'') example_yaml) template_path"
    by (simp add: example_parser_env_def)
  show ?thesis
    using parse_reads_only_the_template_file
      [where fs = "\<lambda>p. if p = template_path then Inr ''t'' else Inl OSError"
         and env = "example_parser_env (\<lambda>p. Inr ''t'') example_yaml"
         and body = "example_issue ''a, b ,c''"] h
    by simp
qed

text \<open>
  C8 as stated fails: the same issue body gives one record when the template file has one
  content, another record (name and URL exchanged) when it has another content, and an
  \<open>OSError\<close> when the file cannot be read.
\<close>

theorem parse_depends_on_template_file:
  "parse_submission_issue (example_parser_env (\<lambda>p. Inr ''t'') example_yaml)
     (example_issue ''a, b ,c'') =
   Inr ((example_member ''Foo'' ''https://github.com/x/foo'')\<lparr>labels := [''a'', ''b'', ''c'']\<rparr>)
   \<and> parse_submission_issue (example_parser_env (\<lambda>p. Inr ''swapped'') example_yaml)
     (example_issue ''a, b ,c'') =
   Inr ((example_member ''https://github.com/x/foo'' ''Foo'')\<lparr>labels := [''a'', ''b'', ''c'']\<rparr>)
   \<and> parse_submission_issue (example_parser_env (\<lambda>p. Inl OSError) example_yaml)
     (example_issue ''a, b ,c'') = Inl OSError
   \<and> parse_submission_issue (example_parser_env (\<lambda>p. Inr ''t'') example_yaml)
        (example_issue ''a, b ,c'') \<noteq>
      parse_submission_issue (example_parser_env (\<lambda>p. Inr ''swapped'') example_yaml)
        (example_issue ''a, b ,c'')"
  by (simp add: parse_submission_issue_def submission_args_def set_labels_def no_response_def
      section_titles_to_ids_def load_label_to_id_def example_parser_env_def
      example_yaml_def example_template_def example_field_def py_getitem_def py_iter_def
      py_eq_def sections_of_def example_issue_def str_split_def clean_section_def
      str_strip_def isspace_def template_path_def example_Repository_def example_member_def)

end
